theory Spec2Isabelle
  imports Main "HOL-Library.AList"
begin

section \<open>JavaScript values at the untyped boundary\<close>

text \<open>
  The studio keeps the chatbot flow as JSON: the \<open>flow_json\<close> field of the backend record
  and the imported or exported \<open>.json\<close> file. \<open>JSON.parse\<close> returns a value of type
  \<open>any\<close>; the program inspects its shape by hand. Such values are modelled by the datatype
  \<open>json\<close>; an object lists its properties in order, and reading a property takes the first
  binding. JavaScript's \<open>undefined\<close> is \<open>None\<close> of \<open>json option\<close>. Numbers are
  restricted to integers.
\<close>

datatype json =
    JNull
  | JBool bool
  | JNum int
  | JStr string
  | JArr "json list"
  | JObj "(string \<times> json) list"

type_synonym jsval = "json option"

text \<open>
  A text handed to \<open>JSON.parse\<close>: either the parser throws a \<open>SyntaxError\<close> (with its
  message), or the text denotes a value. \<open>JSON.stringify\<close> produces the text of a value, so
  a document written by the program is \<open>Json v\<close>.
\<close>

datatype json_text = BadJson string | Json json

datatype js_error = SyntaxError string | TypeError

text \<open>
  What a piece of code does: it completes with a value, it throws, or it leaves the typed
  model. The last case arises where the program uses a parsed value at a type that it does not
  check (an element of a \<open>templates\<close> array at the interface \<open>ChatbotTemplate\<close>, the name
  of a chatbot as a string in a message) and the value does not have that type: TypeScript's
  cast is unchecked, the program goes on with an ill-typed object, and nothing is claimed
  about that run.
\<close>

datatype 'a outcome = Done 'a | Throws js_error | Nonconforming

fun andThen :: "'a outcome \<Rightarrow> ('a \<Rightarrow> 'b outcome) \<Rightarrow> 'b outcome" where
  "andThen (Done x) f = f x"
| "andThen (Throws e) f = Throws e"
| "andThen Nonconforming f = Nonconforming"

text \<open>
  Property read \<open>v.k\<close>, for the property names this program reads from parsed values
  (\<open>chatbots\<close>, \<open>templates\<close>, \<open>version\<close>, \<open>name\<close>): reading from \<open>null\<close> throws
  a \<open>TypeError\<close>, an object yields its binding or \<open>undefined\<close>, and a boolean, number,
  string or array has none of these properties.
\<close>

fun get :: "json \<Rightarrow> string \<Rightarrow> jsval outcome" where
  "get JNull k = Throws TypeError"
| "get (JObj kvs) k = Done (map_of kvs k)"
| "get v k = Done None"

text \<open>Property read from a value that may be \<open>undefined\<close>.\<close>

fun getv :: "jsval \<Rightarrow> string \<Rightarrow> jsval outcome" where
  "getv None k = Throws TypeError"
| "getv (Some v) k = get v k"

text \<open>JavaScript truthiness, as \<open>if (v)\<close>, \<open>v && ...\<close> and \<open>v || ...\<close> test it.\<close>

fun truthy :: "jsval \<Rightarrow> bool" where
  "truthy None = False"
| "truthy (Some JNull) = False"
| "truthy (Some (JBool b)) = b"
| "truthy (Some (JNum n)) = (n \<noteq> 0)"
| "truthy (Some (JStr s)) = (s \<noteq> [])"
| "truthy (Some (JArr xs)) = True"
| "truthy (Some (JObj kvs)) = True"

text \<open>\<open>v || d\<close>, for a default \<open>d\<close> that is defined.\<close>

definition or_val :: "jsval \<Rightarrow> json \<Rightarrow> json" where
  "or_val v d = (case v of None \<Rightarrow> d | Some x \<Rightarrow> if truthy v then x else d)"

text \<open>The elements of a value that is an array: \<open>v && Array.isArray(v)\<close>.\<close>

fun array_of :: "jsval \<Rightarrow> json list option" where
  "array_of (Some (JArr xs)) = Some xs"
| "array_of v = None"

text \<open>
  A string that may be \<open>undefined\<close> or \<open>null\<close> (the URL parameter \<open>flow\<close>, the record's
  \<open>chatbot_name\<close>): \<open>nonempty\<close> is its truthiness, \<open>or_str a b\<close> is \<open>a || b\<close>.
\<close>

definition nonempty :: "string option \<Rightarrow> string option" where
  "nonempty a = (case a of None \<Rightarrow> None | Some s \<Rightarrow> if s = [] then None else Some s)"

definition or_str :: "string option \<Rightarrow> string \<Rightarrow> string" where
  "or_str a b = (case nonempty a of None \<Rightarrow> b | Some s \<Rightarrow> s)"

text \<open>\<open>String.prototype.toLowerCase\<close>, on the ASCII letters.\<close>

definition lower_char :: "char \<Rightarrow> char" where
  "lower_char c =
     (case map_of (zip ''ABCDEFGHIJKLMNOPQRSTUVWXYZ'' ''abcdefghijklmnopqrstuvwxyz'') c of
        Some l \<Rightarrow> l
      | None \<Rightarrow> c)"

definition toLowerCase :: "string \<Rightarrow> string" where
  "toLowerCase s = map lower_char s"

text \<open>The decimal digits of a natural number, as a template literal prints \<open>Date.now()\<close>.\<close>

fun decimal :: "nat \<Rightarrow> string" where
  "decimal n =
     (if n < 10 then [''0123456789'' ! n]
      else decimal (n div 10) @ [''0123456789'' ! (n mod 10)])"

declare decimal.simps [simp del]

definition dquote :: string where
  "dquote = [CHR 0x22]"

section \<open>The flow document: types of \<open>types/chatbot.ts\<close>\<close>

datatype TemplateType =
    TText | TButton | TCta | TList | TFlow | TCatalog | TProduct | TMultiProduct
  | TMedia | TLocation | TRequestLocation | TTemplate | TDynamic

fun TemplateType_str :: "TemplateType \<Rightarrow> string" where
  "TemplateType_str TText = ''text''"
| "TemplateType_str TButton = ''button''"
| "TemplateType_str TCta = ''cta''"
| "TemplateType_str TList = ''list''"
| "TemplateType_str TFlow = ''flow''"
| "TemplateType_str TCatalog = ''catalog''"
| "TemplateType_str TProduct = ''product''"
| "TemplateType_str TMultiProduct = ''multi-product''"
| "TemplateType_str TMedia = ''media''"
| "TemplateType_str TLocation = ''location''"
| "TemplateType_str TRequestLocation = ''request-location''"
| "TemplateType_str TTemplate = ''template''"
| "TemplateType_str TDynamic = ''dynamic''"

definition all_TemplateTypes :: "TemplateType list" where
  "all_TemplateTypes =
     [TText, TButton, TCta, TList, TFlow, TCatalog, TProduct, TMultiProduct,
      TMedia, TLocation, TRequestLocation, TTemplate, TDynamic]"

datatype Orientation = Vertical | Horizontal

fun Orientation_str :: "Orientation \<Rightarrow> string" where
  "Orientation_str Vertical = ''vertical''"
| "Orientation_str Horizontal = ''horizontal''"

record Position =
  pos_x :: int
  pos_y :: int

text \<open>
  \<open>RouteConfig\<close>. The route that \<open>onConnect\<close> creates for the default handle carries two
  more properties, \<open>sourcePosition\<close> and \<open>targetPosition\<close>, so the record has them as
  optional fields.
\<close>

record RouteConfig =
  route_id :: string
  pattern :: string
  isRegex :: bool
  connectedTo :: "string option"
  sourcePosition :: "string option"
  targetPosition :: "string option"

text \<open>
  \<open>ChatbotTemplate\<close>. The message payload and the hooks are never inspected by the editor
  and stay JSON values. \<open>TemplateSettings\<close> has optional fields only and is written through
  computed keys (\<open>[key]: value\<close>): it is a property bag, kept as the list of its bindings.
\<close>

record ChatbotTemplate =
  tmpl_id :: string
  tmpl_name :: string
  tmpl_type :: TemplateType
  message :: json
  routes :: "RouteConfig list"
  hooks :: "json option"
  settings :: "(string \<times> json) list option"
  tmpl_position :: "Position option"
  parentId :: "string option"
  handleOrientation :: "Orientation option"

subsection \<open>Typed objects as JSON, and the unchecked cast back\<close>

text \<open>
  \<open>JSON.stringify\<close> of a typed object lists its properties and omits those that are
  \<open>undefined\<close>; \<open>optf k v rest\<close> adds the property \<open>k\<close> when it is defined.
\<close>

definition optf :: "string \<Rightarrow> jsval \<Rightarrow> (string \<times> json) list \<Rightarrow> (string \<times> json) list" where
  "optf k v rest = (case v of None \<Rightarrow> rest | Some j \<Rightarrow> (k, j) # rest)"

definition enc_position :: "Position \<Rightarrow> json" where
  "enc_position p = JObj [(''x'', JNum (pos_x p)), (''y'', JNum (pos_y p))]"

definition enc_route :: "RouteConfig \<Rightarrow> json" where
  "enc_route r =
     JObj ((''id'', JStr (route_id r)) # (''pattern'', JStr (pattern r)) #
           (''isRegex'', JBool (isRegex r)) #
           optf ''connectedTo'' (map_option JStr (connectedTo r))
          (optf ''sourcePosition'' (map_option JStr (sourcePosition r))
          (optf ''targetPosition'' (map_option JStr (targetPosition r)) [])))"

definition enc_template :: "ChatbotTemplate \<Rightarrow> json" where
  "enc_template t =
     JObj ((''id'', JStr (tmpl_id t)) # (''name'', JStr (tmpl_name t)) #
           (''type'', JStr (TemplateType_str (tmpl_type t))) #
           (''message'', message t) #
           (''routes'', JArr (map enc_route (routes t))) #
           optf ''hooks'' (hooks t)
          (optf ''settings'' (map_option JObj (settings t))
          (optf ''position'' (map_option enc_position (tmpl_position t))
          (optf ''parentId'' (map_option JStr (parentId t))
          (optf ''handleOrientation''
             (map_option (\<lambda>h. JStr (Orientation_str h)) (handleOrientation t)) [])))))"

text \<open>
  The cast of a parsed value to a declared interface. It succeeds on the objects that have
  the interface's shape: the required properties with their types, optional properties
  absent or with their types, and no other property.
\<close>

definition only_keys :: "string list \<Rightarrow> (string \<times> json) list \<Rightarrow> bool" where
  "only_keys ks kvs = list_all (\<lambda>kv. fst kv \<in> set ks) kvs"

fun opt_string :: "jsval \<Rightarrow> string option option" where
  "opt_string None = Some None"
| "opt_string (Some (JStr s)) = Some (Some s)"
| "opt_string (Some v) = None"

fun as_Position :: "json \<Rightarrow> Position option" where
  "as_Position (JObj kvs) =
     (case (map_of kvs ''x'', map_of kvs ''y'') of
        (Some (JNum a), Some (JNum b)) \<Rightarrow>
          if only_keys [''x'', ''y''] kvs then Some \<lparr>pos_x = a, pos_y = b\<rparr> else None
      | _ \<Rightarrow> None)"
| "as_Position v = None"

fun opt_Position :: "jsval \<Rightarrow> Position option option" where
  "opt_Position None = Some None"
| "opt_Position (Some v) = map_option Some (as_Position v)"

fun as_RouteConfig :: "json \<Rightarrow> RouteConfig option" where
  "as_RouteConfig (JObj kvs) =
     (case (map_of kvs ''id'', map_of kvs ''pattern'', map_of kvs ''isRegex'') of
        (Some (JStr i), Some (JStr p), Some (JBool b)) \<Rightarrow>
          (case (opt_string (map_of kvs ''connectedTo''),
                 opt_string (map_of kvs ''sourcePosition''),
                 opt_string (map_of kvs ''targetPosition'')) of
             (Some c, Some sp, Some tp) \<Rightarrow>
               if only_keys [''id'', ''pattern'', ''isRegex'', ''connectedTo'',
                             ''sourcePosition'', ''targetPosition''] kvs
               then Some \<lparr>route_id = i, pattern = p, isRegex = b, connectedTo = c,
                          sourcePosition = sp, targetPosition = tp\<rparr>
               else None
           | _ \<Rightarrow> None)
      | _ \<Rightarrow> None)"
| "as_RouteConfig v = None"

definition as_TemplateType :: "string \<Rightarrow> TemplateType option" where
  "as_TemplateType s = find (\<lambda>t. TemplateType_str t = s) all_TemplateTypes"

fun opt_Orientation :: "jsval \<Rightarrow> Orientation option option" where
  "opt_Orientation None = Some None"
| "opt_Orientation (Some (JStr s)) =
     (if s = ''vertical'' then Some (Some Vertical)
      else if s = ''horizontal'' then Some (Some Horizontal) else None)"
| "opt_Orientation (Some v) = None"

fun opt_settings :: "jsval \<Rightarrow> (string \<times> json) list option option" where
  "opt_settings None = Some None"
| "opt_settings (Some (JObj kvs)) = Some (Some kvs)"
| "opt_settings (Some v) = None"

fun as_routes :: "json \<Rightarrow> RouteConfig list option" where
  "as_routes (JArr rs) = those (map as_RouteConfig rs)"
| "as_routes v = None"

fun as_ChatbotTemplate :: "json \<Rightarrow> ChatbotTemplate option" where
  "as_ChatbotTemplate (JObj kvs) =
     (case (map_of kvs ''id'', map_of kvs ''name'', map_of kvs ''type'',
            map_of kvs ''message'', map_of kvs ''routes'') of
        (Some (JStr i), Some (JStr n), Some (JStr ty), Some m, Some rs) \<Rightarrow>
          (case (as_TemplateType ty, as_routes rs,
                 opt_settings (map_of kvs ''settings''),
                 opt_Position (map_of kvs ''position''),
                 opt_string (map_of kvs ''parentId''),
                 opt_Orientation (map_of kvs ''handleOrientation'')) of
             (Some ty', Some rs', Some s, Some p, Some par, Some h) \<Rightarrow>
               if only_keys [''id'', ''name'', ''type'', ''message'', ''routes'', ''hooks'',
                             ''settings'', ''position'', ''parentId'', ''handleOrientation''] kvs
               then Some \<lparr>tmpl_id = i, tmpl_name = n, tmpl_type = ty', message = m,
                          routes = rs', hooks = map_of kvs ''hooks'', settings = s,
                          tmpl_position = p, parentId = par, handleOrientation = h\<rparr>
               else None
           | _ \<Rightarrow> None)
      | _ \<Rightarrow> None)"
| "as_ChatbotTemplate v = None"

section \<open>The editor state of \<open>pages/Index.tsx\<close>\<close>

datatype EdgeType = EDefault | EStraight | EStep | ESmoothstep

text \<open>A node of the canvas, as the program builds it: \<open>{id, type, position, data}\<close>.\<close>

record Node =
  node_id :: string
  node_type :: string
  node_position :: Position
  node_data :: ChatbotTemplate

text \<open>
  An edge of the canvas, as the program builds it from a route:
  \<open>{id, source, sourceHandle, target, type, animated, label, data: {isRegex, edgeType}}\<close>.
\<close>

record Edge =
  edge_id :: string
  source :: string
  sourceHandle :: "string option"
  target :: string
  edge_type :: EdgeType
  animated :: bool
  label :: string
  data_isRegex :: bool
  data_edgeType :: EdgeType

record Snapshot =
  snap_nodes :: "Node list"
  snap_edges :: "Edge list"

datatype ToastKind = Success | Error | Info | Warning

datatype Toast = Toast ToastKind string

text \<open>
  \<open>ChatBotConfig\<close>, the backend record. Its \<open>flow_json\<close> text is \<open>None\<close> when it is
  \<open>undefined\<close> or the empty string (both falsy).
\<close>

record ChatBotConfig =
  cfg_name :: "string option"
  chatbot_name :: "string option"
  flow_json :: "json_text option"
  env :: "string option"

text \<open>
  The React state of the component \<open>Index\<close>. Two fields make effects explicit:
  \<open>toasts\<close> is the log of notifications raised through \<open>toast\<close>, and \<open>in_flight\<close> lists the
  \<open>updateDoc\<close> requests that were sent and have not settled, each with the flow name of its
  success and failure messages and the document it carries.
\<close>

record Editor =
  nodes :: "Node list"
  edges :: "Edge list"
  selectedTemplate :: "ChatbotTemplate option"
  edgeType :: EdgeType
  history :: "Snapshot list"
  historyIndex :: int
  isFlowLoaded :: bool
  isSaving :: bool
  toasts :: "Toast list"
  in_flight :: "(string \<times> json) list"

text \<open>The state of the first render: the initial values of the \<open>useState\<close> hooks.\<close>

definition initial :: Editor where
  "initial = \<lparr>nodes = [], edges = [], selectedTemplate = None, edgeType = EDefault,
              history = [], historyIndex = - 1, isFlowLoaded = False, isSaving = False,
              toasts = [], in_flight = []\<rparr>"

definition toast :: "ToastKind \<Rightarrow> string \<Rightarrow> Editor \<Rightarrow> Editor" where
  "toast k msg st = st\<lparr>toasts := toasts st @ [Toast k msg]\<rparr>"

subsection \<open>History\<close>

text \<open>\<open>xs.slice(0, k)\<close>; a negative \<open>k\<close> counts from the end.\<close>

definition slice0 :: "'a list \<Rightarrow> int \<Rightarrow> 'a list" where
  "slice0 xs k = (if 0 \<le> k then take (nat k) xs else take (nat (int (length xs) + k)) xs)"

text \<open>\<open>xs[i]\<close>: \<open>undefined\<close> outside the array.\<close>

definition at_index :: "'a list \<Rightarrow> int \<Rightarrow> 'a option" where
  "at_index xs i = (if 0 \<le> i \<and> i < int (length xs) then Some (xs ! nat i) else None)"

text \<open>
  \<open>saveToHistory\<close> is a callback of the render \<open>r\<close>: the \<open>nodes\<close>, \<open>edges\<close>, \<open>history\<close> and
  \<open>historyIndex\<close> it reads are the values of that render. The state setters a handler calls
  before it (\<open>setNodes\<close>, \<open>setEdges\<close>) only queue the next state \<open>st\<close>; they do not change
  what the callback reads. So the snapshot pushed is the one of \<open>r\<close>.
\<close>

definition saveToHistory :: "Editor \<Rightarrow> Editor \<Rightarrow> Editor" where
  "saveToHistory r st =
     (let newHistory = slice0 (history r) (historyIndex r + 1)
                       @ [\<lparr>snap_nodes = nodes r, snap_edges = edges r\<rparr>]
      in st\<lparr>history := newHistory, historyIndex := int (length newHistory) - 1\<rparr>)"

definition handleUndo :: "Editor \<Rightarrow> Editor outcome" where
  "handleUndo st =
     (if historyIndex st > 0 then
        (case at_index (history st) (historyIndex st - 1) of
           None \<Rightarrow> Throws TypeError
         | Some prevState \<Rightarrow>
             Done (st\<lparr>nodes := snap_nodes prevState, edges := snap_edges prevState,
                      historyIndex := historyIndex st - 1\<rparr>))
      else Done st)"

definition handleRedo :: "Editor \<Rightarrow> Editor outcome" where
  "handleRedo st =
     (if historyIndex st < int (length (history st)) - 1 then
        (case at_index (history st) (historyIndex st + 1) of
           None \<Rightarrow> Throws TypeError
         | Some nextState \<Rightarrow>
             Done (st\<lparr>nodes := snap_nodes nextState, edges := snap_edges nextState,
                      historyIndex := historyIndex st + 1\<rparr>))
      else Done st)"

subsection \<open>Adding and deleting templates\<close>

text \<open>
  \<open>addTemplate(type)\<close>; \<open>now\<close> is the value of \<open>Date.now()\<close> and \<open>pos\<close> the random
  position.
\<close>

definition addTemplate :: "TemplateType \<Rightarrow> nat \<Rightarrow> Position \<Rightarrow> Editor \<Rightarrow> Editor" where
  "addTemplate ty now pos st =
     (let ident = TemplateType_str ty @ ''-'' @ decimal now;
          newTemplate = \<lparr>tmpl_id = ident, tmpl_name = ident, tmpl_type = ty,
                         message = (if ty = TText then JStr []
                                    else JObj [(''body'', JStr []), (''title'', JStr []),
                                               (''footer'', JStr [])]),
                         routes = [], hooks = None, settings = None, tmpl_position = None,
                         parentId = None, handleOrientation = None\<rparr>;
          newNode = \<lparr>node_id = ident, node_type = ''template'', node_position = pos,
                     node_data = newTemplate\<rparr>
      in toast Success (''Added '' @ TemplateType_str ty @ '' template'')
           (saveToHistory st (st\<lparr>nodes := nodes st @ [newNode]\<rparr>)))"

definition deleteTemplate :: "Editor \<Rightarrow> Editor" where
  "deleteTemplate st =
     (case selectedTemplate st of
        None \<Rightarrow> st
      | Some sel \<Rightarrow>
          toast Success ''Template deleted''
            (saveToHistory st
               (st\<lparr>nodes := filter (\<lambda>node. node_id node \<noteq> tmpl_id sel) (nodes st),
                   edges := filter (\<lambda>edge. source edge \<noteq> tmpl_id sel \<and> target edge \<noteq> tmpl_id sel)
                              (edges st),
                   selectedTemplate := None\<rparr>)))"

text \<open>\<open>autoLayout\<close>: three nodes to a row, by the index of the node.\<close>

definition autoLayout :: "Editor \<Rightarrow> Editor" where
  "autoLayout st =
     toast Success ''Auto-layout applied''
       (saveToHistory st
          (st\<lparr>nodes := map (\<lambda>(index, node).
                               node\<lparr>node_position := \<lparr>pos_x = int (index mod 3) * 300,
                                                       pos_y = int (index div 3) * 200\<rparr>\<rparr>)
                           (enumerate 0 (nodes st))\<rparr>))"

subsection \<open>Nodes and edges of a flow document\<close>

text \<open>
  The reconstruction shared by the load effect and \<open>handleFileImport\<close>: a node for every
  template, and an edge for every route whose \<open>connectedTo\<close> is truthy.
\<close>

definition position_or_origin :: "Position option \<Rightarrow> Position" where
  "position_or_origin p = (case p of None \<Rightarrow> \<lparr>pos_x = 0, pos_y = 0\<rparr> | Some q \<Rightarrow> q)"

definition template_node :: "ChatbotTemplate \<Rightarrow> Node" where
  "template_node template =
     \<lparr>node_id = tmpl_id template, node_type = ''template'',
      node_position = position_or_origin (tmpl_position template), node_data = template\<rparr>"

definition flow_nodes :: "ChatbotTemplate list \<Rightarrow> Node list" where
  "flow_nodes templates = map template_node templates"

definition edge_label :: "string \<Rightarrow> bool \<Rightarrow> string" where
  "edge_label routePattern regex =
     (if routePattern \<noteq> [] then (if regex \<and> routePattern = ''.*'' then ''any'' else routePattern)
      else [])"

definition route_edge :: "EdgeType \<Rightarrow> ChatbotTemplate \<Rightarrow> RouteConfig \<Rightarrow> string \<Rightarrow> Edge" where
  "route_edge et template route c =
     \<lparr>edge_id = ''e'' @ tmpl_id template @ ''-'' @ route_id route @ ''-'' @ c,
      source = tmpl_id template, sourceHandle = Some (route_id route), target = c,
      edge_type = et, animated = True,
      label = edge_label (pattern route) (isRegex route),
      data_isRegex = isRegex route, data_edgeType = et\<rparr>"

text \<open>The inner \<open>forEach\<close> over the routes of a template, pushing onto \<open>newEdges\<close>.\<close>

fun push_route_edges :: "EdgeType \<Rightarrow> ChatbotTemplate \<Rightarrow> RouteConfig list \<Rightarrow> Edge list \<Rightarrow> Edge list" where
  "push_route_edges et template [] newEdges = newEdges"
| "push_route_edges et template (route # rs) newEdges =
     (case nonempty (connectedTo route) of
        Some c \<Rightarrow> push_route_edges et template rs (newEdges @ [route_edge et template route c])
      | None \<Rightarrow> push_route_edges et template rs newEdges)"

text \<open>The outer \<open>forEach\<close> over the templates.\<close>

fun push_template_edges :: "EdgeType \<Rightarrow> ChatbotTemplate list \<Rightarrow> Edge list \<Rightarrow> Edge list" where
  "push_template_edges et [] newEdges = newEdges"
| "push_template_edges et (template # ts) newEdges =
     push_template_edges et ts (push_route_edges et template (routes template) newEdges)"

definition flow_edges :: "EdgeType \<Rightarrow> ChatbotTemplate list \<Rightarrow> Edge list" where
  "flow_edges et templates = push_template_edges et templates []"

text \<open>
  \<open>flow.templates.map((template) => ({id: template.id, ...}))\<close> on the elements of a parsed
  array: reading \<open>template.id\<close> throws on a \<open>null\<close> element and on no other; every other
  element is used at the declared type \<open>ChatbotTemplate\<close>.
\<close>

definition as_templates :: "json list \<Rightarrow> ChatbotTemplate list outcome" where
  "as_templates xs =
     (if JNull \<in> set xs then Throws TypeError
      else (case those (map as_ChatbotTemplate xs) of
              Some ts \<Rightarrow> Done ts
            | None \<Rightarrow> Nonconforming))"

subsection \<open>Export and import of a flow file\<close>

text \<open>The templates of the canvas: \<open>nodes.map((node) => ({...node.data, position: node.position}))\<close>.\<close>

definition currentTemplates :: "Node list \<Rightarrow> ChatbotTemplate list" where
  "currentTemplates nds =
     map (\<lambda>node. (node_data node)\<lparr>tmpl_position := Some (node_position node)\<rparr>) nds"

definition enc_flow :: "ChatbotTemplate list \<Rightarrow> string \<Rightarrow> json" where
  "enc_flow templates version =
     JObj [(''templates'', JArr (map enc_template templates)), (''version'', JStr version)]"

text \<open>\<open>exportFlow\<close>: the text written to \<open>chatbot-flow.json\<close>, and the next state.\<close>

definition exportFlow :: "Editor \<Rightarrow> json_text \<times> Editor" where
  "exportFlow st =
     (Json (enc_flow (currentTemplates (nodes st)) ''1.0''),
      toast Success ''Flow exported successfully'' st)"

text \<open>The body of the \<open>try\<close> block of \<open>handleFileImport\<close>, up to the new nodes and edges.\<close>

definition reconstruct :: "EdgeType \<Rightarrow> json_text \<Rightarrow> (Node list \<times> Edge list) outcome" where
  "reconstruct et content =
     (case content of
        BadJson msg \<Rightarrow> Throws (SyntaxError msg)
      | Json flow \<Rightarrow>
          andThen (get flow ''templates'') (\<lambda>templates.
            case array_of templates of
              Some xs \<Rightarrow>
                andThen (as_templates xs) (\<lambda>ts. Done (flow_nodes ts, flow_edges et ts))
            | None \<Rightarrow> Throws TypeError))"

text \<open>
  \<open>handleFileImport\<close> with the text the \<open>FileReader\<close> delivers; \<open>None\<close> when no file was
  chosen. Whatever the \<open>try\<close> block throws is caught.
\<close>

definition handleFileImport :: "json_text option \<Rightarrow> Editor \<Rightarrow> Editor outcome" where
  "handleFileImport file st =
     (case file of
        None \<Rightarrow> Done st
      | Some content \<Rightarrow>
          (case reconstruct (edgeType st) content of
             Done (newNodes, newEdges) \<Rightarrow>
               Done (toast Success ''Flow imported successfully''
                       (saveToHistory st (st\<lparr>nodes := newNodes, edges := newEdges\<rparr>)))
           | Throws e \<Rightarrow> Done (toast Error ''Failed to import flow'' st)
           | Nonconforming \<Rightarrow> Nonconforming))"

subsection \<open>Chatbots of a stored document\<close>

text \<open>
  The callback \<open>(bot) => bot.name.toLowerCase() === flowParam.toLowerCase()\<close>: it throws
  unless \<open>bot.name\<close> is a string.
\<close>

definition bot_name_matches :: "string \<Rightarrow> json \<Rightarrow> bool outcome" where
  "bot_name_matches flowParam chatbot =
     andThen (get chatbot ''name'') (\<lambda>n.
       case n of
         Some (JStr s) \<Rightarrow> Done (toLowerCase s = toLowerCase flowParam)
       | _ \<Rightarrow> Throws TypeError)"

text \<open>
  \<open>Array.prototype.findIndex\<close> with a callback that may throw: the index of the first
  element that satisfies it, \<open>None\<close> for \<open>-1\<close>. \<open>find\<close> returns the element at that index.
\<close>

fun findIndex :: "('a \<Rightarrow> bool outcome) \<Rightarrow> 'a list \<Rightarrow> nat option outcome" where
  "findIndex p [] = Done None"
| "findIndex p (x # xs) =
     (case p x of
        Done True \<Rightarrow> Done (Some 0)
      | Done False \<Rightarrow>
          (case findIndex p xs of
             Done r \<Rightarrow> Done (map_option Suc r)
           | Throws e \<Rightarrow> Throws e
           | Nonconforming \<Rightarrow> Nonconforming)
      | Throws e \<Rightarrow> Throws e
      | Nonconforming \<Rightarrow> Nonconforming)"

definition find_bot :: "string \<Rightarrow> json list \<Rightarrow> jsval outcome" where
  "find_bot flowParam bots =
     andThen (findIndex (bot_name_matches flowParam) bots) (\<lambda>i.
       Done (case i of None \<Rightarrow> None | Some k \<Rightarrow> Some (bots ! k)))"

text \<open>\<open>flowData.chatbots[0].templates\<close> and \<open>flowData.chatbots[0].name\<close>.\<close>

definition first_bot :: "json list \<Rightarrow> (jsval \<times> jsval) outcome" where
  "first_bot bots =
     andThen (getv (at_index bots 0) ''templates'') (\<lambda>t.
     andThen (getv (at_index bots 0) ''name'') (\<lambda>n. Done (t, n)))"

subsection \<open>The load effect\<close>

text \<open>
  The choice of the flow to load from the parsed \<open>flow_json\<close>: the toasts raised on the
  way, \<open>flow.templates\<close> (\<open>undefined\<close> when \<open>flow\<close> is falsy) and \<open>selectedBotName\<close>.
\<close>

definition selectFlow ::
  "ChatBotConfig \<Rightarrow> string option \<Rightarrow> json \<Rightarrow> (Toast list \<times> jsval \<times> jsval) outcome" where
  "selectFlow d flowParam flowData =
     andThen (get flowData ''chatbots'') (\<lambda>chatbots.
       case array_of chatbots of
         Some bots \<Rightarrow>
           (case nonempty flowParam of
              Some p \<Rightarrow>
                andThen (find_bot p bots) (\<lambda>foundBot.
                  case foundBot of
                    Some chatbot \<Rightarrow>
                      andThen (get chatbot ''templates'') (\<lambda>t.
                      andThen (get chatbot ''name'') (\<lambda>n. Done ([], t, n)))
                  | None \<Rightarrow>
                      andThen (first_bot bots) (\<lambda>(t, n).
                        Done ([Toast Warning (''Chatbot '' @ dquote @ p @ dquote
                                 @ '' not found. Loading first chatbot.'')], t, n)))
            | None \<Rightarrow> andThen (first_bot bots) (\<lambda>(t, n). Done ([], t, n)))
       | None \<Rightarrow>
           andThen (if truthy (Some flowData) then get flowData ''templates'' else Done None)
             (\<lambda>t. Done ([], t,
                    Some (JStr (case chatbot_name d of Some s \<Rightarrow> s | None \<Rightarrow> ''untitled'')))))"

text \<open>A value printed in a template literal; the bot's name is expected to be a string.\<close>

fun display :: "jsval \<Rightarrow> string outcome" where
  "display (Some (JStr s)) = Done s"
| "display v = Nonconforming"

text \<open>
  The effect that loads the flow once the backend record \<open>data\<close> has arrived. An exception
  inside the effect is not caught.
\<close>

definition loadFlow :: "ChatBotConfig option \<Rightarrow> bool \<Rightarrow> string option \<Rightarrow> Editor \<Rightarrow> Editor outcome" where
  "loadFlow data isLoading flowParam st =
     (case data of
        Some d \<Rightarrow>
          if isFlowLoaded st then Done st
          else
            (case flow_json d of
               Some (BadJson msg) \<Rightarrow>
                 Done (toast Error (''Failed to parse flow_json: '' @ msg)
                         (st\<lparr>isFlowLoaded := True\<rparr>))
             | Some (Json flowData) \<Rightarrow>
                 andThen (selectFlow d flowParam flowData) (\<lambda>(warnings, templates, selectedBotName).
                   let st1 = st\<lparr>isFlowLoaded := True, toasts := toasts st @ warnings\<rparr> in
                   if truthy templates then
                     (case array_of templates of
                        Some xs \<Rightarrow>
                          andThen (as_templates xs) (\<lambda>ts.
                          andThen (display selectedBotName) (\<lambda>botName.
                            Done (toast Success (''ChatBot flow '' @ dquote @ botName @ dquote
                                                 @ '' loaded'')
                                    (saveToHistory st
                                       (st1\<lparr>nodes := flow_nodes ts,
                                            edges := flow_edges (edgeType st) ts\<rparr>)))))
                      | None \<Rightarrow> Throws TypeError)
                   else Done (toast Error ''Invalid flow structure'' st1))
             | None \<Rightarrow>
                 Done (saveToHistory st
                         (toast Info (''New flow for '' @ dquote
                                      @ (case chatbot_name d of Some s \<Rightarrow> s | None \<Rightarrow> ''untitled'')
                                      @ dquote @ ''. Start building!'')
                            (st\<lparr>isFlowLoaded := True, nodes := [], edges := []\<rparr>))))
      | None \<Rightarrow>
          if \<not> isLoading \<and> \<not> isFlowLoaded st then
            Done (saveToHistory st
                    (toast Info ''Create a new chatbot to continue''
                       (st\<lparr>isFlowLoaded := True, nodes := [], edges := []\<rparr>)))
          else Done st)"

subsection \<open>Serialising the canvas for saving\<close>

definition newBot :: "string \<Rightarrow> json \<Rightarrow> json" where
  "newBot botName templates = JObj [(''name'', JStr botName), (''templates'', templates)]"

text \<open>The fresh document: one chatbot holding the templates of the canvas.\<close>

definition freshDocument :: "string \<Rightarrow> json \<Rightarrow> json" where
  "freshDocument botName current =
     JObj [(''chatbots'', JArr [newBot botName current]), (''version'', JStr ''1.0'')]"

text \<open>
  The assignment \<open>bot.templates = current\<close>. On \<open>null\<close> it throws; on a boolean, number or
  string it throws as well, the module being strict code; on an array it sets a property
  that \<open>JSON.stringify\<close> does not print.
\<close>

fun set_templates :: "json \<Rightarrow> json \<Rightarrow> json outcome" where
  "set_templates (JObj kvs) current = Done (JObj (AList.update ''templates'' current kvs))"
| "set_templates (JArr xs) current = Done (JArr xs)"
| "set_templates v current = Throws TypeError"

text \<open>The document \<open>multiChatbotData\<close> after its array \<open>chatbots\<close> was changed in place.\<close>

fun with_chatbots :: "json \<Rightarrow> json list \<Rightarrow> json" where
  "with_chatbots (JObj kvs) bots = JObj (AList.update ''chatbots'' (JArr bots) kvs)"
| "with_chatbots v bots = v"

text \<open>
  The second half of \<open>getCurrentFlowJson\<close>: update the chatbot named by the URL parameter, or
  the first one, or add one.
\<close>

definition updateChatbots ::
  "string option \<Rightarrow> string option \<Rightarrow> json \<Rightarrow> json \<Rightarrow> json list \<Rightarrow> json outcome" where
  "updateChatbots chatbotName flowParam current multiChatbotData bots =
     (case nonempty flowParam of
        Some p \<Rightarrow>
          andThen (findIndex (bot_name_matches p) bots) (\<lambda>botIndex.
            case botIndex of
              Some i \<Rightarrow>
                andThen (set_templates (bots ! i) current) (\<lambda>chatbot.
                  Done (with_chatbots multiChatbotData (bots[i := chatbot])))
            | None \<Rightarrow> Done (with_chatbots multiChatbotData (bots @ [newBot p current])))
      | None \<Rightarrow>
          if length bots > 0 then
            andThen (set_templates (bots ! 0) current) (\<lambda>chatbot.
              Done (with_chatbots multiChatbotData (bots[0 := chatbot])))
          else Done (with_chatbots multiChatbotData
                       (bots @ [newBot (or_str chatbotName ''Default Bot'') current])))"

text \<open>
  \<open>getCurrentFlowJson\<close>: the value whose text is returned. \<open>data\<close> is the backend record,
  \<open>flowParam\<close> the URL parameter \<open>flow\<close>.
\<close>

definition getCurrentFlowJson :: "ChatBotConfig option \<Rightarrow> string option \<Rightarrow> Node list \<Rightarrow> json outcome" where
  "getCurrentFlowJson data flowParam nds =
     (let current = JArr (map enc_template (currentTemplates nds));
          chatbotName = (case data of None \<Rightarrow> None | Some d \<Rightarrow> chatbot_name d);
          fresh = freshDocument (or_str flowParam (or_str chatbotName ''Default Bot'')) current
      in case (case data of None \<Rightarrow> None | Some d \<Rightarrow> flow_json d) of
           None \<Rightarrow> Done fresh
         | Some (BadJson msg) \<Rightarrow> Done fresh
         | Some (Json flowData) \<Rightarrow>
             andThen (get flowData ''chatbots'') (\<lambda>chatbots.
               case array_of chatbots of
                 Some bots \<Rightarrow> updateChatbots chatbotName flowParam current flowData bots
               | None \<Rightarrow>
                   andThen (get flowData ''templates'') (\<lambda>templates.
                     case array_of templates of
                       Some ts \<Rightarrow>
                         andThen (get flowData ''version'') (\<lambda>version.
                           let bots = [newBot (or_str chatbotName ''Default Bot'') (JArr ts)] in
                           updateChatbots chatbotName flowParam current
                             (JObj [(''chatbots'', JArr bots),
                                    (''version'', or_val version (JStr ''1.0''))])
                             bots)
                     | None \<Rightarrow> Done fresh)))"

subsection \<open>Saving to the backend\<close>

text \<open>
  \<open>saveCurrentFlowJson\<close> up to the call of \<open>updateDoc\<close>: the request joins those in flight.
  The promise settles later, in \<open>saveSettled\<close>.
\<close>

definition saveCurrentFlowJson :: "ChatBotConfig option \<Rightarrow> string option \<Rightarrow> Editor \<Rightarrow> Editor outcome" where
  "saveCurrentFlowJson data flowParam st =
     andThen (getCurrentFlowJson data flowParam (nodes st)) (\<lambda>flowJson.
       let chatbotName = (case data of None \<Rightarrow> None | Some d \<Rightarrow> chatbot_name d);
           flowName = or_str flowParam (or_str chatbotName ''Default Bot'')
       in Done (st\<lparr>isSaving := True, in_flight := in_flight st @ [(flowName, flowJson)]\<rparr>))"

text \<open>
  How a request settles: \<open>updateDoc\<close> rejects, or it resolves and the \<open>mutate()\<close> awaited in
  the \<open>then\<close> callback resolves (\<open>True\<close>) or rejects (\<open>False\<close>).
\<close>

datatype SaveResult = UpdateRejected | UpdateResolved bool

text \<open>
  The \<open>then\<close>, \<open>catch\<close> and \<open>finally\<close> callbacks of the request at position \<open>k\<close> of those in
  flight.
\<close>

definition saveSettled :: "nat \<Rightarrow> SaveResult \<Rightarrow> Editor \<Rightarrow> Editor" where
  "saveSettled k res st =
     (if k < length (in_flight st) then
        (let flowName = fst (in_flight st ! k);
             saved = Toast Success (''Flow '' @ dquote @ flowName @ dquote @ '' saved!'');
             failed = Toast Error (''Failed to save flow '' @ dquote @ flowName @ dquote @ ''.'')
         in st\<lparr>toasts := toasts st @ (case res of
                                         UpdateRejected \<Rightarrow> [failed]
                                       | UpdateResolved True \<Rightarrow> [saved]
                                       | UpdateResolved False \<Rightarrow> [saved, failed]),
               isSaving := False,
               in_flight := take k (in_flight st) @ drop (Suc k) (in_flight st)\<rparr>)
      else st)"

subsection \<open>The settings tab: start and report markers\<close>

text \<open>\<open>template.settings || {}\<close> and \<open>v ?? d\<close>.\<close>

definition settings_or_empty :: "ChatbotTemplate \<Rightarrow> (string \<times> json) list" where
  "settings_or_empty template = (case settings template of None \<Rightarrow> [] | Some kvs \<Rightarrow> kvs)"

fun nullish_or :: "jsval \<Rightarrow> json \<Rightarrow> json" where
  "nullish_or None d = d"
| "nullish_or (Some JNull) d = d"
| "nullish_or (Some v) d = v"

text \<open>The template that \<open>handleStartToggle(checked)\<close> hands to \<open>onUpdate\<close>.\<close>

definition handleStartToggle :: "ChatbotTemplate \<Rightarrow> bool \<Rightarrow> ChatbotTemplate" where
  "handleStartToggle template checked =
     template\<lparr>settings := Some
       (AList.update ''isReport''
          (if checked then JBool False
           else nullish_or (map_of (settings_or_empty template) ''isReport'') (JBool False))
          (AList.update ''isStart'' (JBool checked) (settings_or_empty template)))\<rparr>"

text \<open>The template that \<open>handleReportToggle(checked)\<close> hands to \<open>onUpdate\<close>.\<close>

definition handleReportToggle :: "ChatbotTemplate \<Rightarrow> bool \<Rightarrow> ChatbotTemplate" where
  "handleReportToggle template checked =
     template\<lparr>settings := Some
       (AList.update ''isStart''
          (if checked then JBool False
           else nullish_or (map_of (settings_or_empty template) ''isStart'') (JBool False))
          (AList.update ''isReport'' (JBool checked) (settings_or_empty template)))\<rparr>"

text \<open>A setting of a template, and the two switches as the tab shows them (\<open>=== true\<close>).\<close>

definition setting :: "ChatbotTemplate \<Rightarrow> string \<Rightarrow> jsval" where
  "setting template k = map_of (settings_or_empty template) k"

definition isStart :: "ChatbotTemplate \<Rightarrow> bool" where
  "isStart template = (setting template ''isStart'' = Some (JBool True))"

definition isReport :: "ChatbotTemplate \<Rightarrow> bool" where
  "isReport template = (setting template ''isReport'' = Some (JBool True))"

text \<open>\<open>updateTemplate\<close>, the \<open>onUpdate\<close> of the properties sidebar.\<close>

definition updateTemplate :: "ChatbotTemplate \<Rightarrow> Editor \<Rightarrow> Editor" where
  "updateTemplate template st =
     saveToHistory st
       (st\<lparr>nodes := map (\<lambda>node. if node_id node = tmpl_id template
                                 then node\<lparr>node_data := template\<rparr> else node) (nodes st),
           selectedTemplate := Some template\<rparr>)"

subsection \<open>Connections and routes\<close>







section \<open>Notions used to state the properties\<close>

text \<open>A property of a parsed value, \<open>undefined\<close> on anything but an object.\<close>

definition field :: "json \<Rightarrow> string \<Rightarrow> jsval" where
  "field v k = (case v of JObj kvs \<Rightarrow> map_of kvs k | _ \<Rightarrow> None)"

text \<open>The \<open>templates\<close> array and the \<open>chatbots\<close> array of a parsed value, when it has one.\<close>

definition templates_array :: "json \<Rightarrow> json list option" where
  "templates_array v = array_of (field v ''templates'')"


text \<open>
  A node as the editor creates it: its id is the id of its template and its type is
  \<open>template\<close>. It is \<open>positioned\<close> when, moreover, the template's own \<open>position\<close> is the
  position of the node.
\<close>

definition templated :: "Node \<Rightarrow> bool" where
  "templated node = (node_id node = tmpl_id (node_data node) \<and> node_type node = ''template'')"

definition positioned :: "Node \<Rightarrow> bool" where
  "positioned node =
     (templated node \<and> tmpl_position (node_data node) = Some (node_position node))"

text \<open>
  The connections of a node: source, source handle, target and label, for every route with a
  truthy \<open>connectedTo\<close>. \<open>edge_link\<close> reads the same four parts off an edge.
\<close>

definition route_links :: "Node \<Rightarrow> (string \<times> string option \<times> string \<times> string) list" where
  "route_links node =
     concat (map (\<lambda>route. case nonempty (connectedTo route) of
                             Some c \<Rightarrow> [(node_id node, Some (route_id route), c,
                                        edge_label (pattern route) (isRegex route))]
                           | None \<Rightarrow> [])
                 (routes (node_data node)))"

definition edge_link :: "Edge \<Rightarrow> string \<times> string option \<times> string \<times> string" where
  "edge_link edge = (source edge, sourceHandle edge, target edge, label edge)"








subsection \<open>Example inputs\<close>

definition ex_template :: "string \<Rightarrow> RouteConfig list \<Rightarrow> ChatbotTemplate" where
  "ex_template ident rts =
     \<lparr>tmpl_id = ident, tmpl_name = ident, tmpl_type = TText, message = JStr ''Hi'',
      routes = rts, hooks = None, settings = None, tmpl_position = None,
      parentId = None, handleOrientation = None\<rparr>"

definition ex_node :: "string \<Rightarrow> RouteConfig list \<Rightarrow> Node" where
  "ex_node ident rts =
     \<lparr>node_id = ident, node_type = ''template'', node_position = \<lparr>pos_x = 10, pos_y = 20\<rparr>,
      node_data = ex_template ident rts\<rparr>"

definition ex_route :: "string \<Rightarrow> string \<Rightarrow> string option \<Rightarrow> RouteConfig" where
  "ex_route ident pat tgt =
     \<lparr>route_id = ident, pattern = pat, isRegex = False, connectedTo = tgt,
      sourcePosition = None, targetPosition = None\<rparr>"

text \<open>A canvas with two templates, \<open>a\<close> routed to \<open>b\<close>, and \<open>b\<close> selected.\<close>

definition ex_canvas :: Editor where
  "ex_canvas =
     initial\<lparr>nodes := [ex_node ''a'' [ex_route ''r1'' ''yes'' (Some ''b'')], ex_node ''b'' []],
             edges := flow_edges EDefault [ex_template ''a'' [ex_route ''r1'' ''yes'' (Some ''b'')],
                                           ex_template ''b'' []],
             selectedTemplate := Some (ex_template ''b'' []),
             history := [\<lparr>snap_nodes = [], snap_edges = []\<rparr>], historyIndex := 0,
             isFlowLoaded := True\<rparr>"


text \<open>A backend record with the given \<open>flow_json\<close>.\<close>

definition ex_config :: "json_text option \<Rightarrow> ChatBotConfig" where
  "ex_config fj = \<lparr>cfg_name = Some ''ChatBot Config'', chatbot_name = Some ''shop'',
                    flow_json = fj, env = Some ''local''\<rparr>"

text \<open>A flow file with two templates that carry their positions.\<close>

definition ex_file :: json_text where
  "ex_file =
     Json (enc_flow
       [(ex_template ''a'' [ex_route ''r1'' ''yes'' (Some ''b'')])
          \<lparr>tmpl_position := Some \<lparr>pos_x = 40, pos_y = 50\<rparr>\<rparr>,
        (ex_template ''b'' [])\<lparr>tmpl_position := Some \<lparr>pos_x = 340, pos_y = 50\<rparr>\<rparr>]
       ''1.0'')"


section \<open>Lemmas\<close>

lemma map_of_optf [simp]:
  "map_of (optf k v rest) k' = (if k' = k \<and> v \<noteq> None then v else map_of rest k')"
  by (cases v) (simp_all add: optf_def)

lemma only_keys_Nil [simp]: "only_keys ks []"
  by (simp add: only_keys_def)

lemma only_keys_Cons [simp]: "only_keys ks ((k, v) # kvs) = (k \<in> set ks \<and> only_keys ks kvs)"
  by (simp add: only_keys_def)

lemma only_keys_optf [simp]:
  "only_keys ks (optf k v rest) = ((v = None \<or> k \<in> set ks) \<and> only_keys ks rest)"
  by (cases v) (simp_all add: optf_def)

lemma as_Position_enc [simp]: "as_Position (enc_position p) = Some p"
  by (simp add: enc_position_def)

lemma as_RouteConfig_enc [simp]: "as_RouteConfig (enc_route r) = Some r"
  by (cases "connectedTo r"; cases "sourcePosition r"; cases "targetPosition r")
     (simp_all add: enc_route_def)

lemma those_as_RouteConfig_enc [simp]:
  "those (map (as_RouteConfig \<circ> enc_route) rs) = Some rs"
  by (induction rs) simp_all

lemma as_routes_enc [simp]: "as_routes (JArr (map enc_route rs)) = Some rs"
  by simp

lemma as_TemplateType_str [simp]: "as_TemplateType (TemplateType_str t) = Some t"
  by (cases t) (simp_all add: as_TemplateType_def all_TemplateTypes_def)

lemma as_ChatbotTemplate_enc [simp]: "as_ChatbotTemplate (enc_template t) = Some t"
proof -
  have o: "opt_Orientation (map_option (\<lambda>h. JStr (Orientation_str h)) (handleOrientation t))
             = Some (handleOrientation t)"
  proof (cases "handleOrientation t")
    case None
    then show ?thesis by simp
  next
    case (Some a)
    then show ?thesis by (cases a) simp_all
  qed
  have p: "opt_Position (map_option enc_position (tmpl_position t)) = Some (tmpl_position t)"
    by (cases "tmpl_position t") simp_all
  have s: "opt_settings (map_option JObj (settings t)) = Some (settings t)"
    by (cases "settings t") simp_all
  have q: "opt_string (map_option JStr (parentId t)) = Some (parentId t)"
    by (cases "parentId t") simp_all
  show ?thesis
    using o p s q by (simp add: enc_template_def)
qed

section \<open>Start and report markers\<close>

text \<open>
  Claim C4. For every template: \<open>handleStartToggle\<close> with \<open>true\<close> sets \<open>settings.isStart\<close> to
  \<open>true\<close> and \<open>settings.isReport\<close> to \<open>false\<close>; \<open>handleReportToggle\<close> with \<open>true\<close> sets
  \<open>settings.isReport\<close> to \<open>true\<close> and \<open>settings.isStart\<close> to \<open>false\<close>; both change the
  settings of that same template only; and after either toggle, with either argument, the
  template does not have both markers.
\<close>

theorem toggle_start_report_exclusive:
  "setting (handleStartToggle t True) ''isStart'' = Some (JBool True)
   \<and> setting (handleStartToggle t True) ''isReport'' = Some (JBool False)
   \<and> setting (handleReportToggle t True) ''isReport'' = Some (JBool True)
   \<and> setting (handleReportToggle t True) ''isStart'' = Some (JBool False)
   \<and> handleStartToggle t c = t\<lparr>settings := settings (handleStartToggle t c)\<rparr>
   \<and> handleReportToggle t c = t\<lparr>settings := settings (handleReportToggle t c)\<rparr>
   \<and> \<not> (isStart (handleStartToggle t c) \<and> isReport (handleStartToggle t c))
   \<and> \<not> (isStart (handleReportToggle t c) \<and> isReport (handleReportToggle t c))"
  by (simp add: handleStartToggle_def handleReportToggle_def setting_def settings_or_empty_def
        isStart_def isReport_def update_conv')

section \<open>Deleting a template\<close>

text \<open>
  Claim C10. With a template selected, \<open>deleteTemplate\<close> removes the nodes with its id and the
  edges that have it as source or as target, and nothing else; no remaining node or edge refers
  to it; and the selection is cleared.
\<close>

theorem deleteTemplate_removes_node_and_edges:
  assumes "selectedTemplate st = Some sel"
  shows "nodes (deleteTemplate st) = filter (\<lambda>node. node_id node \<noteq> tmpl_id sel) (nodes st)
       \<and> edges (deleteTemplate st)
           = filter (\<lambda>edge. source edge \<noteq> tmpl_id sel \<and> target edge \<noteq> tmpl_id sel) (edges st)
       \<and> (\<forall>node \<in> set (nodes (deleteTemplate st)). node_id node \<noteq> tmpl_id sel)
       \<and> (\<forall>edge \<in> set (edges (deleteTemplate st)).
             source edge \<noteq> tmpl_id sel \<and> target edge \<noteq> tmpl_id sel)
       \<and> selectedTemplate (deleteTemplate st) = None"
  using assms by (simp add: deleteTemplate_def toast_def saveToHistory_def Let_def)

theorem deleteTemplate_removes_node_and_edges_witness:
  "selectedTemplate ex_canvas = Some (ex_template ''b'' [])
   \<and> nodes (deleteTemplate ex_canvas) = [ex_node ''a'' [ex_route ''r1'' ''yes'' (Some ''b'')]]
   \<and> edges ex_canvas \<noteq> []
   \<and> edges (deleteTemplate ex_canvas) = []
   \<and> selectedTemplate (deleteTemplate ex_canvas) = None"
proof -
  have sel: "selectedTemplate ex_canvas = Some (ex_template ''b'' [])"
    by (simp add: ex_canvas_def)
  have n: "nodes ex_canvas = [ex_node ''a'' [ex_route ''r1'' ''yes'' (Some ''b'')], ex_node ''b'' []]"
    by (simp add: ex_canvas_def)
  have e: "edges ex_canvas =
             [route_edge EDefault (ex_template ''a'' [ex_route ''r1'' ''yes'' (Some ''b'')])
                (ex_route ''r1'' ''yes'' (Some ''b'')) ''b'']"
    by (simp add: ex_canvas_def flow_edges_def nonempty_def ex_template_def ex_route_def)
  show ?thesis
    using deleteTemplate_removes_node_and_edges [OF sel] sel
    by (simp add: n e ex_node_def ex_template_def route_edge_def)
qed

section \<open>Undo and redo\<close>

text \<open>
  Every handler that changes the canvas calls \<open>saveToHistory\<close> after its setters, and the
  snapshot it pushes is the canvas of the render in which the handler ran, that is, the canvas
  before the change.
\<close>

lemma saveToHistory_pushes_rendered_canvas:
  "last (history (saveToHistory r st)) = \<lparr>snap_nodes = nodes r, snap_edges = edges r\<rparr>
   \<and> historyIndex (saveToHistory r st) = int (length (history (saveToHistory r st))) - 1
   \<and> nodes (saveToHistory r st) = nodes st \<and> edges (saveToHistory r st) = edges st"
  by (simp add: saveToHistory_def Let_def)

text \<open>
  Undo followed by redo, at a pointer inside the stack, puts the snapshot under the pointer
  on the canvas and restores the pointer.
\<close>

lemma undo_then_redo:
  assumes "0 < historyIndex st" and "historyIndex st < int (length (history st))"
  shows "andThen (handleUndo st) handleRedo
         = Done (st\<lparr>nodes := snap_nodes (history st ! nat (historyIndex st)),
                    edges := snap_edges (history st ! nat (historyIndex st))\<rparr>)"
  using assms by (simp add: handleUndo_def handleRedo_def at_index_def)

text \<open>
  With the pointer at the top of a non-empty history, adding a template and then undoing and
  redoing leaves the canvas of before the addition: the new node is lost.
\<close>

lemma add_then_undo_redo:
  assumes "historyIndex st = int (length (history st)) - 1" and "history st \<noteq> []"
  shows "andThen (handleUndo (addTemplate ty now pos st)) handleRedo
         = Done ((addTemplate ty now pos st)\<lparr>nodes := nodes st, edges := edges st\<rparr>)"
proof -
  define st1 where "st1 = addTemplate ty now pos st"
  have h: "history st1 = history st @ [\<lparr>snap_nodes = nodes st, snap_edges = edges st\<rparr>]"
    and i: "historyIndex st1 = int (length (history st))"
    using assms
    by (simp_all add: st1_def addTemplate_def toast_def saveToHistory_def slice0_def Let_def)
  have pos: "0 < length (history st)"
    using assms(2) by simp
  have u: "handleUndo st1
           = Done (st1\<lparr>nodes := snap_nodes (history st ! (length (history st) - 1)),
                       edges := snap_edges (history st ! (length (history st) - 1)),
                       historyIndex := int (length (history st)) - 1\<rparr>)"
    using pos by (simp add: handleUndo_def h i at_index_def nth_append nat_diff_distrib')
  show ?thesis
    unfolding st1_def [symmetric]
    using pos by (simp add: u handleRedo_def h i at_index_def nth_append)
qed

text \<open>
  Claim C3, on the code: the editor is opened with no backend record and one text template is
  added. The pointer is then 1. Undo followed by redo restores the pointer but not the canvas:
  the added node is gone, because the snapshot under the pointer is the canvas before the
  addition.
\<close>

theorem undo_redo_drops_last_change:
  "andThen (loadFlow None False None initial) (\<lambda>s0.
     let s1 = addTemplate TText 1700000000000 \<lparr>pos_x = 120, pos_y = 80\<rparr> s0 in
     andThen (handleUndo s1) (\<lambda>s2.
     andThen (handleRedo s2) (\<lambda>s3.
       Done (historyIndex s1, historyIndex s3, nodes s1 = nodes s3,
             length (nodes s1), length (nodes s3)))))
   = Done (1, 1, False, 1, 0)"
  by (simp add: loadFlow_def initial_def addTemplate_def saveToHistory_def toast_def
        slice0_def handleUndo_def handleRedo_def at_index_def Let_def)

section \<open>Importing a malformed file\<close>

text \<open>
  Claim C2. When the text of the file does not parse, or parses to a value without a
  \<open>templates\<close> array, \<open>handleFileImport\<close> raises the error notification
  \<open>Failed to import flow\<close> and changes nothing else: nodes, edges, history and history index
  are as before.
\<close>

theorem import_malformed_leaves_state:
  assumes "content = BadJson msg \<or> (content = Json v \<and> templates_array v = None)"
  shows "handleFileImport (Some content) st = Done (toast Error ''Failed to import flow'' st)
       \<and> nodes (toast Error ''Failed to import flow'' st) = nodes st
       \<and> edges (toast Error ''Failed to import flow'' st) = edges st
       \<and> history (toast Error ''Failed to import flow'' st) = history st
       \<and> historyIndex (toast Error ''Failed to import flow'' st) = historyIndex st
       \<and> toasts (toast Error ''Failed to import flow'' st)
           = toasts st @ [Toast Error ''Failed to import flow'']"
proof -
  have "\<exists>e. reconstruct (edgeType st) content = Throws e"
    using assms
    by (cases v) (auto simp: reconstruct_def templates_array_def field_def)
  then show ?thesis
    by (auto simp: handleFileImport_def toast_def)
qed

theorem import_malformed_leaves_state_witness:
  "templates_array (JObj [(''version'', JStr ''1.0'')]) = None
   \<and> handleFileImport (Some (Json (JObj [(''version'', JStr ''1.0'')]))) ex_canvas
       = Done (ex_canvas\<lparr>toasts := [Toast Error ''Failed to import flow'']\<rparr>)"
proof -
  have h: "templates_array (JObj [(''version'', JStr ''1.0'')]) = None"
    by (simp add: templates_array_def field_def)
  have t: "toasts ex_canvas = []"
    by (simp add: ex_canvas_def initial_def)
  show ?thesis
    using import_malformed_leaves_state
            [of "Json (JObj [(''version'', JStr ''1.0'')])" "[]"
                "JObj [(''version'', JStr ''1.0'')]" ex_canvas] h t
    by (simp add: toast_def)
qed

section \<open>Export followed by import\<close>

lemma push_route_edges_eq:
  "push_route_edges et t rs acc
   = acc @ concat (map (\<lambda>r. case nonempty (connectedTo r) of
                               Some c \<Rightarrow> [route_edge et t r c] | None \<Rightarrow> []) rs)"
  by (induction rs arbitrary: acc) (simp_all split: option.splits)

lemma push_template_edges_eq:
  "push_template_edges et ts acc
   = acc @ concat (map (\<lambda>t. concat (map (\<lambda>r. case nonempty (connectedTo r) of
                               Some c \<Rightarrow> [route_edge et t r c] | None \<Rightarrow> []) (routes t))) ts)"
  by (induction ts arbitrary: acc) (simp_all add: push_route_edges_eq)

text \<open>The two nested loops build one edge for every connected route, in order.\<close>

lemma flow_edges_eq:
  "flow_edges et ts
   = concat (map (\<lambda>t. concat (map (\<lambda>r. case nonempty (connectedTo r) of
                               Some c \<Rightarrow> [route_edge et t r c] | None \<Rightarrow> []) (routes t))) ts)"
  by (simp add: flow_edges_def push_template_edges_eq)

lemma those_as_ChatbotTemplate_enc [simp]:
  "those (map (as_ChatbotTemplate \<circ> enc_template) ts) = Some ts"
  by (induction ts) simp_all

lemma as_templates_enc: "as_templates (map enc_template ts) = Done ts"
  by (auto simp: as_templates_def enc_template_def)

text \<open>Importing a file that holds the templates \<open>ts\<close>.\<close>

lemma import_enc_flow:
  "handleFileImport (Some (Json (enc_flow ts version))) st
   = Done (toast Success ''Flow imported successfully''
             (saveToHistory st (st\<lparr>nodes := flow_nodes ts, edges := flow_edges (edgeType st) ts\<rparr>)))"
  by (simp add: handleFileImport_def reconstruct_def enc_flow_def as_templates_enc)

lemma templated_flow_nodes:
  "list_all templated nds \<Longrightarrow>
   flow_nodes (currentTemplates nds)
   = map (\<lambda>node. node\<lparr>node_data := (node_data node)
                         \<lparr>tmpl_position := Some (node_position node)\<rparr>\<rparr>) nds"
  by (induction nds)
     (simp_all add: flow_nodes_def currentTemplates_def template_node_def templated_def
        position_or_origin_def)

lemma positioned_unchanged:
  "list_all positioned nds \<Longrightarrow>
   map (\<lambda>node. node\<lparr>node_data := (node_data node)
                       \<lparr>tmpl_position := Some (node_position node)\<rparr>\<rparr>) nds = nds"
  by (induction nds) (simp_all add: positioned_def)

lemma route_edge_position:
  "route_edge et (t\<lparr>tmpl_position := p\<rparr>) r c = route_edge et t r c"
  by (simp add: route_edge_def)

lemma flow_edges_currentTemplates:
  "flow_edges et (currentTemplates nds) = flow_edges et (map node_data nds)"
  by (simp add: flow_edges_eq currentTemplates_def comp_def route_edge_position
        cong: option.case_cong)

lemma edge_link_flow_edges:
  "list_all templated nds \<Longrightarrow>
   map edge_link (flow_edges et (map node_data nds)) = concat (map route_links nds)"
proof (induction nds)
  case Nil
  then show ?case by (simp add: flow_edges_eq)
next
  case (Cons n nds)
  have "map edge_link (concat (map (\<lambda>r. case nonempty (connectedTo r) of
                               Some c \<Rightarrow> [route_edge et (node_data n) r c] | None \<Rightarrow> []) rs))
        = concat (map (\<lambda>route. case nonempty (connectedTo route) of
                             Some c \<Rightarrow> [(node_id n, Some (route_id route), c,
                                        edge_label (pattern route) (isRegex route))]
                           | None \<Rightarrow> []) rs)" for rs
    using Cons.prems
    by (induction rs)
       (simp_all add: edge_link_def route_edge_def templated_def split: option.splits)
  with Cons show ?case
    by (simp add: flow_edges_eq route_links_def)
qed

lemma currentTemplates_idem:
  "currentTemplates (map (\<lambda>node. node\<lparr>node_data := (node_data node)
                         \<lparr>tmpl_position := Some (node_position node)\<rparr>\<rparr>) nds)
   = currentTemplates nds"
  by (simp add: currentTemplates_def comp_def)

text \<open>
  Claim C1, as stated, at a canvas the editor reaches: a file with two positioned templates is
  imported and the canvas is laid out automatically, which moves the nodes and leaves the
  \<open>position\<close> inside each template as it was. Export followed by import then keeps the
  positions of the nodes but not the template data.
\<close>

theorem export_import_changes_template_data:
  "andThen (handleFileImport (Some ex_file) initial) (\<lambda>s1.
     let s2 = autoLayout s1 in
     andThen (handleFileImport (Some (fst (exportFlow s2))) s2) (\<lambda>s3.
       Done (list_all templated (nodes s2),
             map node_id (nodes s3) = map node_id (nodes s2),
             map node_position (nodes s3) = map node_position (nodes s2),
             map node_data (nodes s3) = map node_data (nodes s2))))
   = Done (True, True, True, False)"
  by (simp add: ex_file_def import_enc_flow exportFlow_def autoLayout_def toast_def
        saveToHistory_def Let_def flow_nodes_def template_node_def position_or_origin_def
        currentTemplates_def templated_def ex_template_def enumerate_eq_zip upt_rec)

text \<open>
  Claim C1, amended. For a canvas whose nodes are templated, export followed by import
  yields the same nodes in the same order, with the same ids, types and positions, and with
  the template data of each node equal to the original but for its \<open>position\<close> property, which
  is the position of the node (so the nodes are exactly the same when every template carried
  that position already). The edges are those derived from the routes: one for every route with
  a \<open>connectedTo\<close> target, with the same source, source handle, target and label. Exporting the
  imported canvas gives the same file again.
\<close>

theorem export_import_roundtrip:
  assumes "list_all templated (nodes st)"
  shows "\<exists>st''. handleFileImport (Some (fst (exportFlow st))) st' = Done st''
           \<and> nodes st'' = map (\<lambda>node. node\<lparr>node_data := (node_data node)
                                           \<lparr>tmpl_position := Some (node_position node)\<rparr>\<rparr>)
                               (nodes st)
           \<and> (list_all positioned (nodes st) \<longrightarrow> nodes st'' = nodes st)
           \<and> edges st'' = flow_edges (edgeType st') (map node_data (nodes st))
           \<and> map edge_link (edges st'') = concat (map route_links (nodes st))
           \<and> fst (exportFlow st'') = fst (exportFlow st)"
  using assms
  by (simp add: exportFlow_def import_enc_flow toast_def saveToHistory_def Let_def
        templated_flow_nodes positioned_unchanged flow_edges_currentTemplates
        edge_link_flow_edges currentTemplates_idem)

theorem export_import_roundtrip_witness:
  "list_all templated (nodes ex_canvas)
   \<and> (\<exists>st''. handleFileImport (Some (fst (exportFlow ex_canvas))) initial = Done st''
         \<and> map node_id (nodes st'') = [''a'', ''b'']
         \<and> map node_position (nodes st'') = map node_position (nodes ex_canvas)
         \<and> map edge_link (edges st'') = [(''a'', Some ''r1'', ''b'', ''yes'')])"
proof -
  have n: "nodes ex_canvas = [ex_node ''a'' [ex_route ''r1'' ''yes'' (Some ''b'')], ex_node ''b'' []]"
    by (simp add: ex_canvas_def)
  have h: "list_all templated (nodes ex_canvas)"
    by (simp add: n templated_def ex_node_def ex_template_def)
  have l: "concat (map route_links (nodes ex_canvas)) = [(''a'', Some ''r1'', ''b'', ''yes'')]"
    by (simp add: n route_links_def ex_node_def ex_template_def ex_route_def nonempty_def
          edge_label_def)
  obtain st'' where
    "handleFileImport (Some (fst (exportFlow ex_canvas))) initial = Done st''"
    "nodes st'' = map (\<lambda>node. node\<lparr>node_data := (node_data node)
                                     \<lparr>tmpl_position := Some (node_position node)\<rparr>\<rparr>)
                      (nodes ex_canvas)"
    "map edge_link (edges st'') = concat (map route_links (nodes ex_canvas))"
    using export_import_roundtrip [OF h, of initial] by blast
  then show ?thesis
    using h l by (auto simp: n ex_node_def comp_def)
qed

section \<open>Connections and the routes behind them\<close>




section \<open>Saving to the backend\<close>

text \<open>The callbacks of a settled request never touch the canvas or the history.\<close>

lemma saveSettled_keeps_canvas:
  "nodes (saveSettled k res st) = nodes st \<and> edges (saveSettled k res st) = edges st
   \<and> history (saveSettled k res st) = history st
   \<and> historyIndex (saveSettled k res st) = historyIndex st"
  by (simp add: saveSettled_def Let_def)

text \<open>
  Claim C6. When \<open>saveCurrentFlowJson\<close> has sent its request and the backend update fails,
  the nodes, the edges, the history and the history index are as they were before the save, the
  error notification \<open>Failed to save flow "..."\<close> is raised, and \<open>isSaving\<close> is false again.
\<close>

theorem failed_save_leaves_state:
  assumes "saveCurrentFlowJson data flowParam st = Done st1"
  shows "nodes (saveSettled (length (in_flight st)) UpdateRejected st1) = nodes st
       \<and> edges (saveSettled (length (in_flight st)) UpdateRejected st1) = edges st
       \<and> history (saveSettled (length (in_flight st)) UpdateRejected st1) = history st
       \<and> historyIndex (saveSettled (length (in_flight st)) UpdateRejected st1) = historyIndex st
       \<and> isSaving (saveSettled (length (in_flight st)) UpdateRejected st1) = False
       \<and> in_flight (saveSettled (length (in_flight st)) UpdateRejected st1) = in_flight st
       \<and> toasts (saveSettled (length (in_flight st)) UpdateRejected st1)
           = toasts st @ [Toast Error (''Failed to save flow '' @ dquote
                            @ or_str flowParam
                                (or_str (case data of None \<Rightarrow> None | Some d \<Rightarrow> chatbot_name d)
                                   ''Default Bot'')
                            @ dquote @ ''.'')]"
proof -
  obtain flowJson where g: "getCurrentFlowJson data flowParam (nodes st) = Done flowJson"
    using assms by (cases "getCurrentFlowJson data flowParam (nodes st)")
                   (simp_all add: saveCurrentFlowJson_def)
  have st1: "st1 = st\<lparr>isSaving := True,
                       in_flight := in_flight st
                         @ [(or_str flowParam
                               (or_str (case data of None \<Rightarrow> None | Some d \<Rightarrow> chatbot_name d)
                                  ''Default Bot''), flowJson)]\<rparr>"
    using assms g by (simp add: saveCurrentFlowJson_def Let_def)
  show ?thesis
    by (simp add: st1 saveSettled_def Let_def)
qed

theorem failed_save_leaves_state_witness:
  "saveCurrentFlowJson (Some (ex_config None)) None ex_canvas
     = Done (ex_canvas\<lparr>isSaving := True,
               in_flight := [(''shop'', freshDocument ''shop''
                                (JArr (map enc_template (currentTemplates (nodes ex_canvas)))))]\<rparr>)
   \<and> nodes (saveSettled 0 UpdateRejected
        (ex_canvas\<lparr>isSaving := True,
               in_flight := [(''shop'', freshDocument ''shop''
                                (JArr (map enc_template (currentTemplates (nodes ex_canvas)))))]\<rparr>))
     = nodes ex_canvas
   \<and> isSaving (saveSettled 0 UpdateRejected
        (ex_canvas\<lparr>isSaving := True,
               in_flight := [(''shop'', freshDocument ''shop''
                                (JArr (map enc_template (currentTemplates (nodes ex_canvas)))))]\<rparr>))
     = False
   \<and> toasts (saveSettled 0 UpdateRejected
        (ex_canvas\<lparr>isSaving := True,
               in_flight := [(''shop'', freshDocument ''shop''
                                (JArr (map enc_template (currentTemplates (nodes ex_canvas)))))]\<rparr>))
     = [Toast Error (''Failed to save flow '' @ dquote @ ''shop'' @ dquote @ ''.'')]"
proof -
  have f: "in_flight ex_canvas = []" and t: "toasts ex_canvas = []"
    by (simp_all add: ex_canvas_def initial_def)
  have s: "saveCurrentFlowJson (Some (ex_config None)) None ex_canvas
     = Done (ex_canvas\<lparr>isSaving := True,
               in_flight := [(''shop'', freshDocument ''shop''
                                (JArr (map enc_template (currentTemplates (nodes ex_canvas)))))]\<rparr>)"
    by (simp add: saveCurrentFlowJson_def getCurrentFlowJson_def ex_config_def Let_def
          or_str_def nonempty_def f)
  show ?thesis
    using failed_save_leaves_state [OF s] s
    by (simp add: f t ex_config_def or_str_def nonempty_def)
qed

text \<open>
  Claim C8, as stated, at the first render with no backend record: \<open>saveCurrentFlowJson\<close> is
  invoked twice before any request settles. The flag is set after the first invocation, and the
  second invocation sends a second request all the same.
\<close>

theorem second_save_is_sent:
  "andThen (saveCurrentFlowJson None None initial) (\<lambda>s1.
   andThen (saveCurrentFlowJson None None s1) (\<lambda>s2.
     Done (isSaving s1, length (in_flight s1), length (in_flight s2))))
   = Done (True, 1, 2)"
  by (simp add: saveCurrentFlowJson_def getCurrentFlowJson_def initial_def Let_def)

text \<open>
  Claim C8, amended. What \<open>saveCurrentFlowJson\<close> does never depends on \<open>isSaving\<close>:
  nothing reads the flag. Whenever \<open>getCurrentFlowJson\<close> returns a document,
  \<open>saveCurrentFlowJson\<close> sets \<open>isSaving\<close> to true and sends one \<open>updateDoc\<close> request,
  whatever the value of \<open>isSaving\<close> was. So a save invoked while another is in flight
  starts a second, concurrent save, and both requests are in flight.
  When a request settles, in whatever way, \<open>isSaving\<close> is reset to false and that request
  alone leaves those in flight; after two saves and the settling of the first, the flag is
  false while the second save is still in flight.
\<close>

theorem save_sends_request_whatever_flag:
  assumes "getCurrentFlowJson data flowParam (nodes st) = Done flowJson"
      and "flowName = or_str flowParam
                        (or_str (case data of None \<Rightarrow> None | Some d \<Rightarrow> chatbot_name d)
                           ''Default Bot'')"
  shows "saveCurrentFlowJson data flowParam (st\<lparr>isSaving := busy\<rparr>)
           = Done (st\<lparr>isSaving := True,
                      in_flight := in_flight st @ [(flowName, flowJson)]\<rparr>)
       \<and> saveCurrentFlowJson data' flowParam' (s'\<lparr>isSaving := busy\<rparr>)
           = saveCurrentFlowJson data' flowParam' s'
       \<and> andThen (saveCurrentFlowJson data flowParam (st\<lparr>isSaving := busy\<rparr>))
            (saveCurrentFlowJson data flowParam)
           = Done (st\<lparr>isSaving := True,
                      in_flight := in_flight st @ [(flowName, flowJson), (flowName, flowJson)]\<rparr>)
       \<and> (k < length (in_flight s) \<longrightarrow>
            isSaving (saveSettled k res s) = False
            \<and> in_flight (saveSettled k res s) = take k (in_flight s) @ drop (Suc k) (in_flight s))
       \<and> saveSettled (length (in_flight st)) res
            (st\<lparr>isSaving := True,
                in_flight := in_flight st @ [(flowName, flowJson), (flowName, flowJson)]\<rparr>)
           = st\<lparr>isSaving := False,
                 in_flight := in_flight st @ [(flowName, flowJson)],
                 toasts := toasts (saveSettled (length (in_flight st)) res
                             (st\<lparr>isSaving := True,
                                 in_flight := in_flight st
                                   @ [(flowName, flowJson), (flowName, flowJson)]\<rparr>))\<rparr>"
proof -
  have one: "saveCurrentFlowJson data flowParam (st\<lparr>isSaving := b\<rparr>)
           = Done (st\<lparr>isSaving := True,
                      in_flight := in_flight st @ [(flowName, flowJson)]\<rparr>)" for b
    using assms by (simp add: saveCurrentFlowJson_def Let_def)
  have two: "saveCurrentFlowJson data flowParam
               (st\<lparr>isSaving := True, in_flight := in_flight st @ [(flowName, flowJson)]\<rparr>)
           = Done (st\<lparr>isSaving := True,
                      in_flight := in_flight st @ [(flowName, flowJson), (flowName, flowJson)]\<rparr>)"
    using assms by (simp add: saveCurrentFlowJson_def Let_def)
  have flag: "saveCurrentFlowJson data' flowParam' (s'\<lparr>isSaving := busy\<rparr>)
           = saveCurrentFlowJson data' flowParam' s'"
    by (simp add: saveCurrentFlowJson_def Let_def)
  have settle: "isSaving (saveSettled k res s) = False
            \<and> in_flight (saveSettled k res s) = take k (in_flight s) @ drop (Suc k) (in_flight s)"
    if "k < length (in_flight s)"
    using that by (simp add: saveSettled_def Let_def)
  have first: "saveSettled (length (in_flight st)) res
            (st\<lparr>isSaving := True,
                in_flight := in_flight st @ [(flowName, flowJson), (flowName, flowJson)]\<rparr>)
           = st\<lparr>isSaving := False,
                 in_flight := in_flight st @ [(flowName, flowJson)],
                 toasts := toasts (saveSettled (length (in_flight st)) res
                             (st\<lparr>isSaving := True,
                                 in_flight := in_flight st
                                   @ [(flowName, flowJson), (flowName, flowJson)]\<rparr>))\<rparr>"
    by (simp add: saveSettled_def Let_def)
  show ?thesis
    using one [of busy] flag two settle first by simp
qed

theorem save_sends_request_whatever_flag_witness:
  "getCurrentFlowJson None None (nodes initial) = Done (freshDocument ''Default Bot'' (JArr []))
   \<and> saveCurrentFlowJson None None (initial\<lparr>isSaving := True\<rparr>)
     = Done (initial\<lparr>isSaving := True,
                     in_flight := [(''Default Bot'', freshDocument ''Default Bot'' (JArr []))]\<rparr>)
   \<and> andThen (saveCurrentFlowJson None None (initial\<lparr>isSaving := True\<rparr>))
        (saveCurrentFlowJson None None)
     = Done (initial\<lparr>isSaving := True,
                     in_flight := [(''Default Bot'', freshDocument ''Default Bot'' (JArr [])),
                                   (''Default Bot'', freshDocument ''Default Bot'' (JArr []))]\<rparr>)
   \<and> isSaving (saveSettled 0 (UpdateResolved True)
        (initial\<lparr>isSaving := True,
                 in_flight := [(''Default Bot'', freshDocument ''Default Bot'' (JArr [])),
                               (''Default Bot'', freshDocument ''Default Bot'' (JArr []))]\<rparr>))
     = False
   \<and> in_flight (saveSettled 0 (UpdateResolved True)
        (initial\<lparr>isSaving := True,
                 in_flight := [(''Default Bot'', freshDocument ''Default Bot'' (JArr [])),
                               (''Default Bot'', freshDocument ''Default Bot'' (JArr []))]\<rparr>))
     = [(''Default Bot'', freshDocument ''Default Bot'' (JArr []))]"
proof -
  have g: "getCurrentFlowJson None None (nodes initial)
             = Done (freshDocument ''Default Bot'' (JArr []))"
    by (simp add: getCurrentFlowJson_def initial_def Let_def or_str_def nonempty_def
          currentTemplates_def)
  have n: "''Default Bot'' = or_str None
             (or_str (case None :: ChatBotConfig option of None \<Rightarrow> None
                      | Some d \<Rightarrow> chatbot_name d) ''Default Bot'')"
    by (simp add: or_str_def nonempty_def)
  have f: "in_flight initial = []"
    by (simp add: initial_def)
  have k: "(0::nat) < length (in_flight
             (initial\<lparr>isSaving := True,
                 in_flight := [(''Default Bot'', freshDocument ''Default Bot'' (JArr [])),
                               (''Default Bot'', freshDocument ''Default Bot'' (JArr []))]\<rparr>))"
    by simp
  note t = save_sends_request_whatever_flag
            [where busy = True and k = 0 and res = "UpdateResolved True" and data' = None
               and flowParam' = None and s' = initial
               and s = "initial\<lparr>isSaving := True,
                 in_flight := [(''Default Bot'', freshDocument ''Default Bot'' (JArr [])),
                               (''Default Bot'', freshDocument ''Default Bot'' (JArr []))]\<rparr>",
             OF g n, unfolded f append_Nil]
  note t1 = t [THEN conjunct1]
  note t2 = t [THEN conjunct2, THEN conjunct2, THEN conjunct1]
  note t3 = t [THEN conjunct2, THEN conjunct2, THEN conjunct2, THEN conjunct1, THEN mp, OF k]
  have c: "in_flight (saveSettled 0 (UpdateResolved True)
        (initial\<lparr>isSaving := True,
                 in_flight := [(''Default Bot'', freshDocument ''Default Bot'' (JArr [])),
                               (''Default Bot'', freshDocument ''Default Bot'' (JArr []))]\<rparr>))
     = [(''Default Bot'', freshDocument ''Default Bot'' (JArr []))]"
    using t3 by simp
  show ?thesis
    using g t1 t2 t3 [THEN conjunct1] c by (intro conjI)
qed

section \<open>Stored documents of unknown shape\<close>






section \<open>The document that is saved\<close>















end
